theory Spec2Isabelle
  imports Main "HOL-Library.AList"
begin

section \<open>Python strings and paths\<close>

text \<open>
  Strings are \<^typ>\<open>string\<close>, read as ASCII text. The helpers below are the Python
  built-ins and the \<^verbatim>\<open>posixpath\<close> functions the two source files call.
\<close>

definition NL :: char where
  "NL = CHR 0x0A"

definition DQ :: char where
  "DQ = CHR 0x22"

text \<open>\<^verbatim>\<open>str.isspace\<close> on one ASCII character: tab, line feed, vertical tab, form feed,
  carriage return, the four separators 0x1C..0x1F, and the space.\<close>

definition isspace :: "char \<Rightarrow> bool" where
  "isspace c = (c \<in> set [CHR 0x09, CHR 0x0A, CHR 0x0B, CHR 0x0C, CHR 0x0D,
                           CHR 0x1C, CHR 0x1D, CHR 0x1E, CHR 0x1F, CHR 0x20])"

text \<open>\<^verbatim>\<open>s.strip()\<close>\<close>

definition strip :: "string \<Rightarrow> string" where
  "strip s = rev (dropWhile isspace (rev (dropWhile isspace s)))"

text \<open>\<^verbatim>\<open>s.partition(c)\<close> for a separator of one character: the text before the first
  occurrence, the separator, the text after it; without an occurrence the whole string
  and two empty strings.\<close>

definition partition_str :: "char \<Rightarrow> string \<Rightarrow> string \<times> string \<times> string" where
  "partition_str c s =
     (if c \<in> set s
      then (takeWhile (\<lambda>x. x \<noteq> c) s, [c], tl (dropWhile (\<lambda>x. x \<noteq> c) s))
      else (s, [], []))"

text \<open>\<^verbatim>\<open>s.endswith(suf)\<close> and \<^verbatim>\<open>s.startswith(pre)\<close>\<close>

definition endswith :: "string \<Rightarrow> string \<Rightarrow> bool" where
  "endswith s suf = (length suf \<le> length s \<and> drop (length s - length suf) s = suf)"

definition startswith :: "string \<Rightarrow> string \<Rightarrow> bool" where
  "startswith s pre = (take (length pre) s = pre)"

text \<open>\<^verbatim>\<open>os.path.join(a, b)\<close> of \<^verbatim>\<open>posixpath\<close>: an absolute second component
  replaces the first; otherwise the two are joined with one separator unless the first is
  empty or already ends with one. Calls with more components are nested.\<close>

definition os_path_join :: "string \<Rightarrow> string \<Rightarrow> string" where
  "os_path_join a b =
     (if startswith b ''/'' then b
      else if a = [] \<or> endswith a ''/'' then a @ b
      else a @ ''/'' @ b)"

text \<open>\<^verbatim>\<open>os.path.basename(p)\<close>: the text after the last separator.\<close>

definition os_path_basename :: "string \<Rightarrow> string" where
  "os_path_basename p = rev (takeWhile (\<lambda>x. x \<noteq> CHR ''/'') (rev p))"

text \<open>\<^verbatim>\<open>os.path.dirname(p)\<close>: the text up to the last separator, with trailing
  separators removed unless it consists of separators only.\<close>

definition os_path_dirname :: "string \<Rightarrow> string" where
  "os_path_dirname p =
     (let head = rev (dropWhile (\<lambda>x. x \<noteq> CHR ''/'') (rev p))
      in if head \<noteq> [] \<and> \<not> list_all (\<lambda>x. x = CHR ''/'') head
         then rev (dropWhile (\<lambda>x. x = CHR ''/'') (rev head))
         else head)"

section \<open>Errors\<close>

text \<open>Every exception the modelled functions raise or let through is a value.\<close>

datatype error =
    AssertionError
  | KeyError string
  | ValueError string
  | OSError string
  | RunCommandError string
  | UnknownPackageError string
  | UprevError string
  | EbuildManifestError string
  | GeneratedCrosConfigFilesError "string list" "string list"

section \<open>\<^verbatim>\<open>patch_ebuild_vars\<close>\<close>

text \<open>
  The file is the sequence of lines \<^verbatim>\<open>fileinput.input\<close> yields, each with its line
  terminator. \<^verbatim>\<open>variables\<close> is a dictionary from names to values; \<^verbatim>\<open>%s\<close> prints a
  value as its text.

  One iteration of the loop body: what is written to the file for one line, or the
  \<^verbatim>\<open>KeyError\<close> of \<^verbatim>\<open>variables[varname]\<close>. The membership test uses the stripped
  name, the lookup the name as it stands in the line.
\<close>

definition patch_line :: "(string \<rightharpoonup> string) \<Rightarrow> string \<Rightarrow> error + string" where
  "patch_line variables line =
     (case partition_str CHR ''='' line of (varname, eq, _) \<Rightarrow>
        if eq = ''='' \<and> strip varname \<in> dom variables
        then (case variables varname of
                None \<Rightarrow> Inl (KeyError varname)
              | Some val \<Rightarrow> Inr (varname @ [CHR ''='', DQ] @ val @ [DQ, NL]))
        else Inr line)"

text \<open>
  The loop. In-place mode moves the file aside and writes the replacement from scratch,
  and \<^verbatim>\<open>fileinput.close()\<close> in the \<^verbatim>\<open>finally\<close> clause removes the moved original:
  when an iteration raises, the file keeps the lines written so far and the exception
  propagates. The result is the new content of the file and the exception, if any.
\<close>

fun patch_ebuild_vars :: "(string \<rightharpoonup> string) \<Rightarrow> string list \<Rightarrow> string list \<times> error option" where
  "patch_ebuild_vars variables [] = ([], None)"
| "patch_ebuild_vars variables (line # rest) =
     (case patch_line variables line of
        Inl e \<Rightarrow> ([], Some e)
      | Inr out \<Rightarrow>
          (case patch_ebuild_vars variables rest of (outs, r) \<Rightarrow> (out # outs, r)))"

section \<open>Uprev results\<close>

text \<open>The named tuple \<^verbatim>\<open>UprevVersionedPackageModifications\<close> and the class
  \<^verbatim>\<open>UprevVersionedPackageResult\<close> with its one attribute.\<close>

record UprevVersionedPackageModifications =
  new_version :: string
  files :: "string list"

record UprevVersionedPackageResult =
  modified :: "UprevVersionedPackageModifications list"

definition new_result :: UprevVersionedPackageResult where
  "new_result = \<lparr>modified = []\<rparr>"

definition add_result ::
  "UprevVersionedPackageResult \<Rightarrow> string \<Rightarrow> string list \<Rightarrow> UprevVersionedPackageResult" where
  "add_result self version modified_files =
     self\<lparr>modified := modified self @ [\<lparr>new_version = version, files = modified_files\<rparr>]\<rparr>"

definition uprevved :: "UprevVersionedPackageResult \<Rightarrow> bool" where
  "uprevved self = (modified self \<noteq> [])"

section \<open>The handler registry and dispatch\<close>

text \<open>
  Build targets and the chroot are opaque to this module (it hands them on); a build
  target is represented by its name and the chroot by its path. A git reference is the
  named tuple of \<^verbatim>\<open>uprev_lib\<close>. A handler runs on some state of the world \<open>'w\<close> (the
  checkout it edits) and returns its result or the exception it raised, with the state
  it left behind.
\<close>

type_synonym build_target = string
type_synonym chroot = string

record GitRef =
  path :: string
  ref :: string
  revision :: string

type_synonym 'w handler =
  "build_target list \<Rightarrow> GitRef list \<Rightarrow> chroot \<Rightarrow> 'w \<Rightarrow> (error + UprevVersionedPackageResult) \<times> 'w"

text \<open>The module-level dictionary \<^verbatim>\<open>_UPREV_FUNCS\<close>, from \<^verbatim>\<open>category/package\<close> to the
  handler.\<close>

type_synonym 'w UPREV_FUNCS = "string \<rightharpoonup> 'w handler"

text \<open>
  The decorator \<^verbatim>\<open>uprevs_versioned_package(package)(func)\<close>: the assertion on the
  package name (an empty string is falsy), then the assignment
  \<^verbatim>\<open>_UPREV_FUNCS[package] = func\<close>. It returns the updated dictionary and the
  \<^verbatim>\<open>pass_through\<close> wrapper, which calls \<^verbatim>\<open>func\<close> with the arguments it is given.
\<close>

definition uprevs_versioned_package ::
  "string \<Rightarrow> 'w handler \<Rightarrow> 'w UPREV_FUNCS \<Rightarrow> error + ('w UPREV_FUNCS \<times> 'w handler)" where
  "uprevs_versioned_package package func funcs =
     (if package = [] then Inl AssertionError
      else Inr (funcs(package \<mapsto> func),
                (\<lambda>build_targets refs chroot. func build_targets refs chroot)))"

text \<open>Of \<^verbatim>\<open>portage_util.CPV\<close> the dispatcher reads the attribute \<^verbatim>\<open>cp\<close> only. The
  argument is an optional value: \<^verbatim>\<open>None\<close> is what the assertion rejects, a named tuple
  with fields is always truthy.\<close>

record CPV =
  category :: string
  cp :: string

definition unknown_package_message :: "string \<Rightarrow> string" where
  "unknown_package_message name =
     ''Package '' @ [DQ] @ name @ [DQ] @ '' does not have a registered handler.''"

definition uprev_versioned_package ::
  "'w UPREV_FUNCS \<Rightarrow> CPV option \<Rightarrow> build_target list \<Rightarrow> GitRef list \<Rightarrow> chroot \<Rightarrow> 'w
     \<Rightarrow> (error + UprevVersionedPackageResult) \<times> 'w" where
  "uprev_versioned_package funcs package build_targets refs chroot w =
     (case package of
        None \<Rightarrow> (Inl AssertionError, w)
      | Some p \<Rightarrow>
          (case funcs (cp p) of
             None \<Rightarrow> (Inl (UnknownPackageError (unknown_package_message (cp p))), w)
           | Some func \<Rightarrow> func build_targets refs chroot w))"

section \<open>The checkout\<close>

text \<open>
  The files of the checkout are an association list from absolute path to content, in
  directory order, each path once. \<^verbatim>\<open>os.path.exists\<close> is a lookup, and
  \<^verbatim>\<open>osutils.ReadFile\<close> returns the content or raises the error of \<^verbatim>\<open>open\<close>.
\<close>

type_synonym fs = "(string \<times> string) list"

definition os_path_exists :: "fs \<Rightarrow> string \<Rightarrow> bool" where
  "os_path_exists fs p = (map_of fs p \<noteq> None)"

definition ReadFile :: "fs \<Rightarrow> string \<Rightarrow> error + string" where
  "ReadFile fs p = (case map_of fs p of None \<Rightarrow> Inl (OSError p) | Some content \<Rightarrow> Inr content)"

text \<open>
  The checkout lists files only, so a directory is there when a file lies under it (a
  checkout has no empty directories); the empty path is the current directory.
\<close>

definition is_dir :: "fs \<Rightarrow> string \<Rightarrow> bool" where
  "is_dir fs d =
     (d = [] \<or> list_ex (\<lambda>p. startswith p (if endswith d ''/'' then d else d @ ''/''))
                  (map fst fs))"

text \<open>A name a directory entry can have on Linux: not empty, not one of the two dot
  entries, at most 255 bytes.\<close>

definition valid_name :: "string \<Rightarrow> bool" where
  "valid_name n = (n \<noteq> [] \<and> n \<noteq> ''.'' \<and> n \<noteq> ''..'' \<and> length n \<le> 255)"

text \<open>
  \<^verbatim>\<open>os.rename(src, dst)\<close> on files. A path with a NUL character is refused with
  \<^verbatim>\<open>ValueError\<close> (a path of the checkout has none); a source that does not exist is
  an error; when both names are the same file there is nothing to do; the destination
  must lie in an existing directory, must not be a directory itself, and must be a name
  the system accepts (last component valid, whole path below 4096 bytes), or the call
  raises \<^verbatim>\<open>OSError\<close>; otherwise the content moves to the new name, replacing a file
  already there.
\<close>

definition os_rename :: "string \<Rightarrow> string \<Rightarrow> fs \<Rightarrow> error + fs" where
  "os_rename src dst fs =
     (case map_of fs src of
        None \<Rightarrow>
          if CHR 0x00 \<in> set src \<or> CHR 0x00 \<in> set dst
          then Inl (ValueError ''embedded null byte'')
          else Inl (OSError src)
      | Some content \<Rightarrow>
          if src = dst then Inr fs
          else if CHR 0x00 \<in> set dst then Inl (ValueError ''embedded null byte'')
          else if is_dir fs (os_path_dirname dst) \<and> \<not> is_dir fs dst
                  \<and> valid_name (os_path_basename dst) \<and> length dst < 4096
          then Inr (AList.update dst content (AList.delete src fs))
          else Inl (OSError dst))"

text \<open>
  What \<^verbatim>\<open>packages.py\<close> takes from \<^verbatim>\<open>chromite.lib\<close>, whose sources are not part of
  this development, is a parameter: the two root constants, the ebuild scanner
  \<^verbatim>\<open>portage_util.EBuild.List\<close>, the manifest generator
  \<^verbatim>\<open>portage_util.UpdateEbuildManifest\<close> and the command runner
  \<^verbatim>\<open>cros_build_lib.run\<close>. The two external processes either fail with
  \<^verbatim>\<open>RunCommandError\<close> or leave a new state of the checkout.
\<close>

record chromite_lib =
  SOURCE_ROOT :: string
  CHROOT_SOURCE_ROOT :: string
  EBuild_List :: "fs \<Rightarrow> string \<Rightarrow> string list"
  UpdateEbuildManifest :: "string \<Rightarrow> chroot \<Rightarrow> fs \<Rightarrow> error + fs"
  run :: "string list \<Rightarrow> chroot \<Rightarrow> fs \<Rightarrow> error + fs"

section \<open>\<^verbatim>\<open>uprev_ebuild_from_pin\<close>\<close>

text \<open>The message of the \<^verbatim>\<open>EbuildManifestError\<close> is built from the package name and
  the captured error text of the failed command.\<close>

definition manifest_error :: "string \<Rightarrow> error \<Rightarrow> error" where
  "manifest_error package e =
     (case e of
        RunCommandError stderr \<Rightarrow>
          EbuildManifestError (''Unable to update manifest for '' @ package @ '': '' @ stderr)
      | _ \<Rightarrow> e)"

definition uprev_ebuild_from_pin ::
  "chromite_lib \<Rightarrow> string \<Rightarrow> string \<Rightarrow> chroot \<Rightarrow> fs
     \<Rightarrow> (error + UprevVersionedPackageResult) \<times> fs" where
  "uprev_ebuild_from_pin lib package_path version_pin_path chroot fs =
     (let package = os_path_basename package_path;
          package_src_path = os_path_join (SOURCE_ROOT lib) package_path;
          ebuild_paths = EBuild_List lib fs package_src_path
      in if ebuild_paths = [] then (Inl (UprevError (''No ebuilds found for '' @ package)), fs)
         else if length ebuild_paths > 1
         then (Inl (UprevError (''Multiple ebuilds found for '' @ package)), fs)
         else
           (let ebuild_path = hd ebuild_paths;
                version_pin_src_path = os_path_join (SOURCE_ROOT lib) version_pin_path
            in (case ReadFile fs version_pin_src_path of
                  Inl e \<Rightarrow> (Inl e, fs)
                | Inr content \<Rightarrow>
                   (let version = strip content;
                        new_ebuild_path =
                          os_path_join package_path (package @ ''-'' @ version @ ''-r1.ebuild'');
                        new_ebuild_src_path = os_path_join (SOURCE_ROOT lib) new_ebuild_path
                    in (case os_rename ebuild_path new_ebuild_src_path fs of
                          Inl e \<Rightarrow> (Inl e, fs)
                        | Inr fs1 \<Rightarrow>
                           (let manifest_src_path = os_path_join package_src_path ''Manifest'';
                                new_ebuild_chroot_path =
                                  os_path_join (CHROOT_SOURCE_ROOT lib) new_ebuild_path
                            in (case UpdateEbuildManifest lib new_ebuild_chroot_path chroot fs1 of
                                  Inl e \<Rightarrow> (Inl (manifest_error package e), fs1)
                                | Inr fs2 \<Rightarrow>
                                   (Inr (add_result new_result version
                                           [new_ebuild_src_path, ebuild_path, manifest_src_path]),
                                    fs2))))))))"

section \<open>\<^verbatim>\<open>uprev_chrome\<close>\<close>

text \<open>
  \<^verbatim>\<open>uprev_lib\<close> and \<^verbatim>\<open>constants\<close> are not part of this development either, so the
  coordinator is modelled over any manager: \<open>'m\<close> is the state of an
  \<^verbatim>\<open>UprevChromeManager\<close> together with the overlay it edits, \<^verbatim>\<open>uprev\<close> returns the
  truth value the coordinator tests and the state it leaves, or the exception it raised.
\<close>

record 'm uprev_lib =
  CHROME_CP :: string
  OTHER_CHROME_PACKAGES :: "string list"
  get_chrome_version_from_refs :: "GitRef list \<Rightarrow> error + string"
  UprevChromeManager :: "string \<Rightarrow> build_target list \<Rightarrow> chroot \<Rightarrow> 'm"
  uprev :: "string \<Rightarrow> 'm \<Rightarrow> error + (bool \<times> 'm)"
  modified_ebuilds :: "'m \<Rightarrow> string list"

text \<open>The loop over \<^verbatim>\<open>constants.OTHER_CHROME_PACKAGES\<close>: what each call returns is
  dropped, an exception ends the loop.\<close>

fun uprev_followers :: "'m uprev_lib \<Rightarrow> string list \<Rightarrow> 'm \<Rightarrow> error + 'm" where
  "uprev_followers ulib [] m = Inr m"
| "uprev_followers ulib (package # rest) m =
     (case uprev ulib package m of
        Inl e \<Rightarrow> Inl e
      | Inr (_, m') \<Rightarrow> uprev_followers ulib rest m')"

definition uprev_chrome ::
  "'m uprev_lib \<Rightarrow> build_target list \<Rightarrow> GitRef list \<Rightarrow> chroot
     \<Rightarrow> error + (UprevVersionedPackageResult \<times> 'm)" where
  "uprev_chrome ulib build_targets refs chroot =
     (case get_chrome_version_from_refs ulib refs of
        Inl e \<Rightarrow> Inl e
      | Inr chrome_version \<Rightarrow>
         (let uprev_manager = UprevChromeManager ulib chrome_version build_targets chroot;
              result = new_result
          in (case uprev ulib (CHROME_CP ulib) uprev_manager of
                Inl e \<Rightarrow> Inl e
              | Inr (ok, m1) \<Rightarrow>
                  if \<not> ok then Inr (result, m1)
                  else (case uprev_followers ulib (OTHER_CHROME_PACKAGES ulib) m1 of
                          Inl e \<Rightarrow> Inl e
                        | Inr m2 \<Rightarrow>
                            Inr (add_result result chrome_version (modified_ebuilds ulib m2),
                                 m2)))))"

section \<open>\<^verbatim>\<open>_generate_platform_c_files\<close>\<close>

text \<open>Of a replication rule and of the configuration the function reads the destination
  paths only.\<close>

record FileReplicationRule =
  source_path :: string
  destination_path :: string

record ReplicationConfig =
  file_replication_rules :: "FileReplicationRule list"

definition expected_c_files :: "string list" where
  "expected_c_files = [''config.c'', ''ec_config.c'', ''ec_config.h'']"

text \<open>
  The exception \<^verbatim>\<open>GeneratedCrosConfigFilesError(expected_files, found_files)\<close> is the
  constructor of \<^typ>\<open>error\<close> with the two lists its message prints. The
  \<^verbatim>\<open>ValueError\<close> message ends with the printed configuration, which is left out. A
  failure of the generator propagates as the \<^verbatim>\<open>RunCommandError\<close> it is.
\<close>

definition generate_platform_c_files ::
  "chromite_lib \<Rightarrow> ReplicationConfig \<Rightarrow> chroot \<Rightarrow> fs \<Rightarrow> (error + string list) \<times> fs" where
  "generate_platform_c_files lib replication_config chroot fs =
     (let build_config_paths =
            filter (\<lambda>p. endswith p ''build_config.json'')
              (map destination_path (file_replication_rules replication_config))
      in if build_config_paths = [] then (Inr [], fs)
         else if length build_config_paths > 1
         then (Inl (ValueError ''Expected at most one build_config.json destination path.''), fs)
         else
           (let build_config_path = hd build_config_paths;
                build_config_chroot_path =
                  os_path_join (CHROOT_SOURCE_ROOT lib) build_config_path;
                generated_output_chroot_dir =
                  os_path_join (CHROOT_SOURCE_ROOT lib) (os_path_dirname build_config_path);
                command = [''cros_config_schema'', ''-m'', build_config_chroot_path, ''-g'',
                           generated_output_chroot_dir, ''-f'', [DQ] @ ''TRUE'' @ [DQ]]
            in (case run lib command chroot fs of
                  Inl e \<Rightarrow> (Inl e, fs)
                | Inr fs1 \<Rightarrow>
                   (let generated_output_dir = os_path_dirname build_config_path;
                        generated_files =
                          map (os_path_join generated_output_dir)
                            (filter (\<lambda>f. os_path_exists fs1
                                       (os_path_join
                                          (os_path_join (SOURCE_ROOT lib) generated_output_dir) f))
                               expected_c_files)
                    in if length expected_c_files \<noteq> length generated_files
                       then (Inl (GeneratedCrosConfigFilesError expected_c_files generated_files),
                             fs1)
                       else (Inr generated_files, fs1)))))"

section \<open>The presubmit check \<^verbatim>\<open>_RunJson5ConfigChecks\<close>\<close>

text \<open>
  Python compares values of any two types. The last test of the check compares a set of
  strings with a string, so both kinds of value are needed: \<^verbatim>\<open>==\<close> between a set and
  a string is \<^verbatim>\<open>False\<close>, between two values of one kind it is equality.
\<close>

datatype pyval = PySet "string set" | PyStr string

fun py_eq :: "pyval \<Rightarrow> pyval \<Rightarrow> bool" where
  "py_eq (PySet a) (PySet b) = (a = b)"
| "py_eq (PyStr a) (PyStr b) = (a = b)"
| "py_eq _ _ = False"

record PresubmitPromptWarning =
  message :: string
  items :: "string list"

text \<open>
  The presubmit API and the two imported tools are parameters: the local paths of the
  affected files, the values of the dictionary \<^verbatim>\<open>ReadHistogramValues\<close> returns for a
  source path (with the markers and the prefix option the check passes), the \<^verbatim>\<open>data\<close>
  entry of the JSON5 file loaded from a path, as a list of dictionaries, and the text
  \<^verbatim>\<open>format\<close> prints for \<^verbatim>\<open>list(s)\<close> of a set \<^verbatim>\<open>s\<close> (its order is not fixed by
  the language).
\<close>

record presubmit_api =
  AffectedFiles :: "string list"
  ReadHistogramValues :: "string \<Rightarrow> error + string list"
  json5_load_data :: "string \<Rightarrow> error + (string \<rightharpoonup> string) list"
  format_list :: "string set \<Rightarrow> string"

text \<open>The set comprehension \<^verbatim>\<open>{feature['name'] for feature in ...}\<close>, as the list of
  names in order; a feature without the key raises.\<close>

fun feature_names :: "(string \<rightharpoonup> string) list \<Rightarrow> error + string list" where
  "feature_names [] = Inr []"
| "feature_names (feature # rest) =
     (case feature ''name'' of
        None \<Rightarrow> Inl (KeyError ''name'')
      | Some name \<Rightarrow>
          (case feature_names rest of Inl e \<Rightarrow> Inl e | Inr names \<Rightarrow> Inr (name # names)))"

definition mojom_source_path :: string where
  "mojom_source_path =
     foldl os_path_join ''third_party''
       [''blink'', ''public'', ''mojom'', ''feature_policy'', ''feature_policy_feature.mojom'']"

definition json5_config_path :: string where
  "json5_config_path =
     foldl os_path_join ''third_party''
       [''blink'', ''renderer'', ''core'', ''feature_policy'', ''feature_policy_features.json5'']"

definition RunJson5ConfigChecks :: "presubmit_api \<Rightarrow> error + PresubmitPromptWarning list" where
  "RunJson5ConfigChecks input_api =
     (let affected_paths = set (AffectedFiles input_api)
      in if mojom_source_path \<notin> affected_paths \<and> json5_config_path \<notin> affected_paths
         then Inr []
         else
           (case ReadHistogramValues input_api mojom_source_path of
              Inl e \<Rightarrow> Inl e
            | Inr vals \<Rightarrow>
               (let mojom_enums = set vals - {''NotFound''}
                in (case json5_load_data input_api json5_config_path of
                      Inl e \<Rightarrow> Inl e
                    | Inr data \<Rightarrow>
                       (case feature_names data of
                          Inl e \<Rightarrow> Inl e
                        | Inr names \<Rightarrow>
                           (let json5_enums = set names;
                                json5_missing_enums = mojom_enums - json5_enums;
                                mojom_missing_enums = json5_enums - mojom_enums;
                                json5_messages =
                                  (if json5_missing_enums \<noteq> {}
                                   then format_list input_api json5_missing_enums
                                          @ '' are missing in json5 config.'' @ [NL]
                                   else []);
                                mojom_messages =
                                  (if mojom_missing_enums \<noteq> {}
                                   then format_list input_api mojom_missing_enums
                                          @ '' are missing in mojom file.'' @ [NL]
                                   else [])
                            in if py_eq (PySet json5_enums) (PyStr mojom_source_path)
                               then Inr []
                               else Inr [\<lparr>message =
                                            json5_config_path @ '' and '' @ mojom_source_path
                                              @ '' are out of sync: '' @ json5_messages
                                              @ mojom_messages,
                                          items = [mojom_source_path, json5_config_path]\<rparr>]))))))"

section \<open>Predicates and test doubles used in the statements\<close>

text \<open>A line is matched when it has an \<^verbatim>\<open>=\<close> and the stripped text before the first
  one is a key of the dictionary.\<close>

definition matched :: "(string \<rightharpoonup> string) \<Rightarrow> string \<Rightarrow> bool" where
  "matched variables line =
     (CHR ''='' \<in> set line \<and> strip (takeWhile (\<lambda>x. x \<noteq> CHR ''='') line) \<in> dom variables)"

text \<open>A handler that counts its invocations in the state and reports the version it was
  built with.\<close>

definition counting_handler :: "string \<Rightarrow> nat handler" where
  "counting_handler v build_targets refs chroot n =
     (Inr (add_result new_result v []), Suc n)"

text \<open>A spy around any manager: it records, in order, the packages \<^verbatim>\<open>uprev\<close> was
  called with.\<close>

definition spy :: "'m uprev_lib \<Rightarrow> ('m \<times> string list) uprev_lib" where
  "spy ulib =
     \<lparr>CHROME_CP = CHROME_CP ulib,
      OTHER_CHROME_PACKAGES = OTHER_CHROME_PACKAGES ulib,
      get_chrome_version_from_refs = get_chrome_version_from_refs ulib,
      UprevChromeManager =
        (\<lambda>v build_targets chroot. (UprevChromeManager ulib v build_targets chroot, [])),
      uprev = (\<lambda>package (m, calls).
                 case uprev ulib package m of
                   Inl e \<Rightarrow> Inl e
                 | Inr (ok, m') \<Rightarrow> Inr (ok, (m', calls @ [package]))),
      modified_ebuilds = (\<lambda>(m, calls). modified_ebuilds ulib m)\<rparr>"

text \<open>
  A manager for concrete runs. Its state holds the version it was created for, the
  version of the stable ebuild of each package, and the ebuild files it wrote. A package
  in \<open>held\<close> is one the manager does not move (a newer stable ebuild exists): its
  \<^verbatim>\<open>uprev\<close> returns false and changes nothing. The version is taken from the first
  reference.
\<close>

record stub_manager =
  target :: string
  stable :: "(string \<times> string) list"
  written :: "string list"

definition stub_uprev ::
  "string list \<Rightarrow> string \<Rightarrow> stub_manager \<Rightarrow> error + (bool \<times> stub_manager)" where
  "stub_uprev held package m =
     (if package \<in> set held then Inr (False, m)
      else Inr (True, m\<lparr>stable := AList.update package (target m) (stable m),
                         written := written m @ [package @ ''-'' @ target m @ ''_rc-r1.ebuild'']\<rparr>))"

definition stub_uprev_lib ::
  "string list \<Rightarrow> (string \<times> string) list \<Rightarrow> stub_manager uprev_lib" where
  "stub_uprev_lib held versions =
     \<lparr>CHROME_CP = ''chromeos-base/chromeos-chrome'',
      OTHER_CHROME_PACKAGES = [''chromeos-base/chromium-source'', ''chromeos-base/chrome-icu''],
      get_chrome_version_from_refs =
        (\<lambda>refs. case refs of [] \<Rightarrow> Inl (ValueError ''no refs'') | r # _ \<Rightarrow> Inr (revision r)),
      UprevChromeManager =
        (\<lambda>v build_targets chroot. \<lparr>target = v, stable = versions, written = []\<rparr>),
      uprev = stub_uprev held,
      modified_ebuilds = written\<rparr>"

definition chrome_ref :: GitRef where
  "chrome_ref =
     \<lparr>path = ''/chromium/src'', ref = ''refs/tags/85.0.4183.0'', revision = ''85.0.4183.0''\<rparr>"

definition overlay_versions :: "(string \<times> string) list" where
  "overlay_versions =
     [(''chromeos-base/chromeos-chrome'', ''84.0.4147.0''),
      (''chromeos-base/chromium-source'', ''84.0.4147.0''),
      (''chromeos-base/chrome-icu'', ''86.0.4200.0'')]"

text \<open>
  A scanner, a manifest generator and a command runner for concrete runs, over a checkout
  rooted at \<^verbatim>\<open>/src\<close> that the chroot sees at \<^verbatim>\<open>/mnt/host/source\<close>. The scanner lists
  the files of a directory whose name ends with \<^verbatim>\<open>.ebuild\<close>; the manifest generator
  writes the \<^verbatim>\<open>Manifest\<close> beside the ebuild; the command runner writes the files
  \<open>produced\<close> into the output directory named on the command line.
\<close>

definition list_ebuilds :: "fs \<Rightarrow> string \<Rightarrow> string list" where
  "list_ebuilds fs dir =
     filter (\<lambda>p. os_path_dirname p = dir \<and> endswith p ''.ebuild'') (map fst fs)"

definition stub_manifest :: "string \<Rightarrow> chroot \<Rightarrow> fs \<Rightarrow> error + fs" where
  "stub_manifest ebuild_chroot_path chroot fs =
     Inr (AList.update
            (os_path_join (''/src'' @ drop 16 (os_path_dirname ebuild_chroot_path)) ''Manifest'')
            (''EBUILD '' @ os_path_basename ebuild_chroot_path) fs)"

definition stub_run :: "string list \<Rightarrow> string list \<Rightarrow> chroot \<Rightarrow> fs \<Rightarrow> error + fs" where
  "stub_run produced command chroot fs =
     (case drop 4 command of
        [] \<Rightarrow> Inl (RunCommandError ''usage'')
      | dir # _ \<Rightarrow>
          Inr (fold (\<lambda>f. AList.update (os_path_join (''/src'' @ drop 16 dir) f) ''/* generated */'')
                 produced fs))"

definition stub_chromite :: "string list \<Rightarrow> chromite_lib" where
  "stub_chromite produced =
     \<lparr>SOURCE_ROOT = ''/src'', CHROOT_SOURCE_ROOT = ''/mnt/host/source'',
      EBuild_List = list_ebuilds, UpdateEbuildManifest = stub_manifest,
      run = stub_run produced\<rparr>"

definition foo_checkout :: fs where
  "foo_checkout =
     [(''/src/overlay/chromeos-base/foo/foo-1.2.3.ebuild'', ''EAPI=7'' @ [NL]),
      (''/src/overlay/chromeos-base/foo/VERSION-PIN'', ''1.2.4'' @ [NL])]"

definition foo_checkout_pinned :: fs where
  "foo_checkout_pinned =
     [(''/src/overlay/chromeos-base/foo/VERSION-PIN'', ''1.2.4'' @ [NL]),
      (''/src/overlay/chromeos-base/foo/foo-1.2.4-r1.ebuild'', ''EAPI=7'' @ [NL]),
      (''/src/overlay/chromeos-base/foo/Manifest'', ''EBUILD foo-1.2.4-r1.ebuild'')]"


text \<open>The expected files that are absent from the output directory.\<close>

definition missing_c_files :: "chromite_lib \<Rightarrow> fs \<Rightarrow> string \<Rightarrow> string list" where
  "missing_c_files lib fs dir =
     filter (\<lambda>f. \<not> os_path_exists fs (os_path_join (os_path_join (SOURCE_ROOT lib) dir) f))
       expected_c_files"

definition bsp_config :: ReplicationConfig where
  "bsp_config =
     \<lparr>file_replication_rules =
        [\<lparr>source_path = ''private/overlay/config.jsonproto'',
          destination_path = ''overlay/bsp/files/config.jsonproto''\<rparr>,
         \<lparr>source_path = ''private/overlay/build_config.json'',
          destination_path = ''overlay/bsp/files/build_config.json''\<rparr>]\<rparr>"

text \<open>An input of the presubmit check in which the mojom file is affected and the two
  enumerations have the same names.\<close>

definition in_sync_api :: presubmit_api where
  "in_sync_api =
     \<lparr>AffectedFiles = [mojom_source_path],
      ReadHistogramValues = (\<lambda>p. Inr [''NotFound'', ''Camera'', ''Geolocation'']),
      json5_load_data = (\<lambda>p. Inr [[''name'' \<mapsto> ''Camera''], [''name'' \<mapsto> ''Geolocation'']]),
      format_list = (\<lambda>s. ''[...]'')\<rparr>"

section \<open>Properties of \<^verbatim>\<open>patch_ebuild_vars\<close>\<close>

lemma patch_line_unmatched:
  "\<not> matched variables line \<Longrightarrow> patch_line variables line = Inr line"
  by (auto simp: patch_line_def matched_def partition_str_def)

lemma patch_line_matched:
  "matched variables line \<Longrightarrow>
   patch_line variables line =
     (case variables (takeWhile (\<lambda>x. x \<noteq> CHR ''='') line) of
        None \<Rightarrow> Inl (KeyError (takeWhile (\<lambda>x. x \<noteq> CHR ''='') line))
      | Some v \<Rightarrow> Inr (takeWhile (\<lambda>x. x \<noteq> CHR ''='') line @ [CHR ''='', DQ] @ v @ [DQ, NL]))"
  by (auto simp: patch_line_def matched_def partition_str_def)

text \<open>When no iteration raises, the file keeps its number of lines, and every line that
  is not matched stays as it was, at its position: nothing is appended or dropped.\<close>

lemma patch_ok_length:
  "patch_ebuild_vars variables ls = (outs, None) \<Longrightarrow> length outs = length ls"
  by (induction ls arbitrary: outs) (auto split: sum.splits prod.splits)

lemma patch_ok_frame:
  "patch_ebuild_vars variables ls = (outs, None) \<Longrightarrow> i < length ls \<Longrightarrow>
   \<not> matched variables (ls ! i) \<Longrightarrow> outs ! i = ls ! i"
proof (induction ls arbitrary: outs i)
  case Nil
  then show ?case by simp
next
  case (Cons l ls)
  then show ?case
    by (cases i) (auto split: sum.splits prod.splits simp: patch_line_unmatched)
qed

text \<open>The loop raises exactly when some matched line has a text before its \<^verbatim>\<open>=\<close> that
  is not itself a key, which is the case of a name with blanks around it.\<close>

lemma patch_raises_iff:
  "snd (patch_ebuild_vars variables ls) \<noteq> None \<longleftrightarrow>
   (\<exists>l \<in> set ls. matched variables l \<and> variables (takeWhile (\<lambda>x. x \<noteq> CHR ''='') l) = None)"
proof (induction ls)
  case Nil
  show ?case by simp
next
  case (Cons l ls)
  show ?case
  proof (cases "matched variables l")
    case True
    with Cons show ?thesis
      by (auto simp: patch_line_matched split: option.splits prod.splits)
  next
    case False
    with Cons show ?thesis
      by (auto simp: patch_line_unmatched split: prod.splits)
  qed
qed

text \<open>
  C6. The claim: \<^verbatim>\<open>patch_ebuild_vars\<close> rewrites matched lines only and leaves every other
  line of the file as it was, in order. The code does not, when a matched name is
  indented: with the dictionary \<^verbatim>\<open>{'FOO': 'new'}\<close> and a file of a comment, the line
  \<^verbatim>\<open>  FOO=old\<close> and the line \<^verbatim>\<open>BAR=3\<close>, the lookup \<^verbatim>\<open>variables['  FOO']\<close> raises,
  and the file is left with the comment only: the unmatched line \<^verbatim>\<open>BAR=3\<close> is gone.
\<close>

theorem patch_ebuild_vars_loses_lines:
  "patch_ebuild_vars [''FOO'' \<mapsto> ''new'']
     [''# comment'' @ [NL], ''  FOO=old'' @ [NL], ''BAR=3'' @ [NL]]
   = ([''# comment'' @ [NL]], Some (KeyError ''  FOO''))"
  by (simp add: patch_line_def partition_str_def strip_def isspace_def NL_def)

text \<open>
  C10. The claim: every matched line is rewritten to the text before its \<^verbatim>\<open>=\<close>, then
  \<^verbatim>\<open>="<new value>"\<close> and a newline. The code does not rewrite the matched line
  \<^verbatim>\<open>  FOO=old\<close> under \<^verbatim>\<open>{'FOO': 'new'}\<close>: the membership test strips the name, the
  lookup does not, and the call raises \<^verbatim>\<open>KeyError\<close> having written nothing.
\<close>

theorem patch_ebuild_vars_indented_name_raises:
  "matched [''FOO'' \<mapsto> ''new''] (''  FOO=old'' @ [NL])
   \<and> patch_ebuild_vars [''FOO'' \<mapsto> ''new''] [''  FOO=old'' @ [NL]]
       = ([], Some (KeyError ''  FOO''))
   \<and> patch_ebuild_vars [''FOO'' \<mapsto> ''new''] [''FOO=old'' @ [NL]]
       = ([''FOO='' @ [DQ] @ ''new'' @ [DQ, NL]], None)"
  by (simp add: matched_def patch_line_def partition_str_def strip_def isspace_def NL_def)

section \<open>Properties of the registry and of dispatch\<close>

text \<open>
  C4, as the code has it. Registering a handler under a non-empty identity always
  succeeds, whether or not the identity already has a handler: afterwards the identity
  maps to the handler just given (the last registration wins), every other identity keeps
  its handler, and the wrapper returned is the handler itself.
\<close>

theorem registration_last_wins:
  assumes "package \<noteq> []"
  shows "\<exists>funcs'. uprevs_versioned_package package func funcs = Inr (funcs', func)
           \<and> funcs' package = Some func
           \<and> (\<forall>other. other \<noteq> package \<longrightarrow> funcs' other = funcs other)"
  using assms by (simp add: uprevs_versioned_package_def)

theorem registration_last_wins_witness:
  "\<exists>funcs'. uprevs_versioned_package ''chromeos-base/chromeos-dtc-vm'' (counting_handler ''2'')
       [''chromeos-base/chromeos-dtc-vm'' \<mapsto> counting_handler ''1'']
       = Inr (funcs', counting_handler ''2'')
     \<and> funcs' ''chromeos-base/chromeos-dtc-vm'' = Some (counting_handler ''2'')
     \<and> (\<forall>other. other \<noteq> ''chromeos-base/chromeos-dtc-vm'' \<longrightarrow>
           funcs' other = [''chromeos-base/chromeos-dtc-vm'' \<mapsto> counting_handler ''1''] other)"
  using registration_last_wins [of "''chromeos-base/chromeos-dtc-vm''" "counting_handler ''2''"
      "[''chromeos-base/chromeos-dtc-vm'' \<mapsto> counting_handler ''1'']"]
  by simp

text \<open>
  C4, as claimed, fails: a second registration under an identity that has a handler
  returns normally with the second handler in the dictionary, and dispatch then runs the
  second handler.
\<close>

theorem reregistration_counterexample:
  "uprevs_versioned_package ''chromeos-base/chromeos-dtc-vm'' (counting_handler ''2'')
       [''chromeos-base/chromeos-dtc-vm'' \<mapsto> counting_handler ''1'']
     = Inr ([''chromeos-base/chromeos-dtc-vm'' \<mapsto> counting_handler ''2''],
            counting_handler ''2'')
   \<and> uprev_versioned_package [''chromeos-base/chromeos-dtc-vm'' \<mapsto> counting_handler ''2'']
       (Some \<lparr>category = ''chromeos-base'', cp = ''chromeos-base/chromeos-dtc-vm''\<rparr>)
       [] [] ''/chroot'' 0
     = (Inr \<lparr>modified = [\<lparr>new_version = ''2'', files = []\<rparr>]\<rparr>, 1)"
  by (simp add: uprevs_versioned_package_def uprev_versioned_package_def counting_handler_def
      add_result_def new_result_def)

text \<open>
  C5. For a package whose identity has no handler, dispatch raises
  \<^verbatim>\<open>UnknownPackageError\<close> with a message that quotes the identity and leaves the state
  as it was, whatever handlers are registered: none of them ran. For a package whose
  identity has a handler, dispatch is that handler applied to the arguments.
\<close>

theorem dispatch_by_identity:
  "(funcs (cp p) = None \<longrightarrow>
      uprev_versioned_package funcs (Some p) build_targets refs chroot w
        = (Inl (UnknownPackageError
                  (''Package '' @ [DQ] @ cp p @ [DQ] @ '' does not have a registered handler.'')),
           w))
   \<and> (\<forall>func. funcs (cp p) = Some func \<longrightarrow>
        uprev_versioned_package funcs (Some p) build_targets refs chroot w
          = func build_targets refs chroot w)"
  by (simp add: uprev_versioned_package_def unknown_package_message_def)

theorem dispatch_by_identity_witness:
  "uprev_versioned_package [''media-libs/virglrenderer'' \<mapsto> counting_handler ''1'']
       (Some \<lparr>category = ''sys-apps'', cp = ''sys-apps/unknown''\<rparr>) [] [] ''/chroot'' 0
     = (Inl (UnknownPackageError
               (''Package '' @ [DQ] @ ''sys-apps/unknown'' @ [DQ]
                  @ '' does not have a registered handler.'')), 0)
   \<and> uprev_versioned_package [''media-libs/virglrenderer'' \<mapsto> counting_handler ''1'']
       (Some \<lparr>category = ''media-libs'', cp = ''media-libs/virglrenderer''\<rparr>) [] [] ''/chroot'' 0
     = (Inr \<lparr>modified = [\<lparr>new_version = ''1'', files = []\<rparr>]\<rparr>, 1)"
  using dispatch_by_identity [of "[''media-libs/virglrenderer'' \<mapsto> counting_handler ''1'']"
      "\<lparr>category = ''sys-apps'', cp = ''sys-apps/unknown''\<rparr>" "[]" "[]" "''/chroot''" 0]
    dispatch_by_identity [of "[''media-libs/virglrenderer'' \<mapsto> counting_handler ''1'']"
      "\<lparr>category = ''media-libs'', cp = ''media-libs/virglrenderer''\<rparr>" "[]" "[]" "''/chroot''" 0]
  by (simp add: counting_handler_def add_result_def new_result_def)

section \<open>Properties of \<^verbatim>\<open>uprev_chrome\<close>\<close>

text \<open>The coordinator raises nothing of its own: when the version is found and no call of
  the manager raises, it returns a result.\<close>

lemma uprev_followers_returns:
  assumes "\<forall>package m. \<exists>ok m'. uprev ulib package m = Inr (ok, m')"
  shows "\<exists>m'. uprev_followers ulib packages m = Inr m'"
proof (induction packages arbitrary: m)
  case Nil
  show ?case by simp
next
  case (Cons p ps)
  from assms obtain ok m1 where "uprev ulib p m = Inr (ok, m1)" by blast
  with Cons show ?case by simp
qed

lemma uprev_chrome_returns:
  assumes "get_chrome_version_from_refs ulib refs = Inr v"
      and "\<forall>package m. \<exists>ok m'. uprev ulib package m = Inr (ok, m')"
  shows "\<exists>r m. uprev_chrome ulib build_targets refs chroot = Inr (r, m)"
proof -
  from assms(2) obtain ok m1 where
    p: "uprev ulib (CHROME_CP ulib) (UprevChromeManager ulib v build_targets chroot) = Inr (ok, m1)"
    by blast
  from uprev_followers_returns [OF assms(2)] obtain m2 where
    f: "uprev_followers ulib (OTHER_CHROME_PACKAGES ulib) m1 = Inr m2" by blast
  show ?thesis using assms(1) p f by (simp add: uprev_chrome_def)
qed

text \<open>
  C1. The claim: after a version bump of the primary package every follower is at the
  primary's new version, and a mismatch raises an assertion error. The code does not
  check: with a manager that moves Chrome from 84.0.4147.0 to 85.0.4183.0 and leaves the
  follower \<^verbatim>\<open>chromeos-base/chrome-icu\<close> at 86.0.4200.0, the coordinator returns a result
  for 85.0.4183.0 and raises nothing.
\<close>

theorem uprev_chrome_mismatch_returns:
  "uprev_chrome (stub_uprev_lib [''chromeos-base/chrome-icu''] overlay_versions)
       [] [chrome_ref] ''/chroot''
   = Inr (\<lparr>modified =
             [\<lparr>new_version = ''85.0.4183.0'',
               files = [''chromeos-base/chromeos-chrome-85.0.4183.0_rc-r1.ebuild'',
                        ''chromeos-base/chromium-source-85.0.4183.0_rc-r1.ebuild'']\<rparr>]\<rparr>,
          \<lparr>target = ''85.0.4183.0'',
           stable = [(''chromeos-base/chromeos-chrome'', ''85.0.4183.0''),
                     (''chromeos-base/chromium-source'', ''85.0.4183.0''),
                     (''chromeos-base/chrome-icu'', ''86.0.4200.0'')],
           written = [''chromeos-base/chromeos-chrome-85.0.4183.0_rc-r1.ebuild'',
                      ''chromeos-base/chromium-source-85.0.4183.0_rc-r1.ebuild'']\<rparr>)"
  by (simp add: uprev_chrome_def stub_uprev_lib_def stub_uprev_def overlay_versions_def
      chrome_ref_def add_result_def new_result_def)

text \<open>
  C2. When the \<^verbatim>\<open>uprev\<close> of the primary package returns false, the coordinator returns
  the empty result, for which \<^verbatim>\<open>uprevved\<close> is false, and the spy has recorded the one
  call for the primary package: no follower was passed to \<^verbatim>\<open>uprev\<close>.
\<close>

theorem unchanged_primary_stops:
  assumes "get_chrome_version_from_refs ulib refs = Inr v"
      and "uprev ulib (CHROME_CP ulib) (UprevChromeManager ulib v build_targets chroot)
             = Inr (False, m')"
  shows "uprev_chrome (spy ulib) build_targets refs chroot
           = Inr (\<lparr>modified = []\<rparr>, (m', [CHROME_CP ulib]))
         \<and> \<not> uprevved \<lparr>modified = []\<rparr>"
  using assms by (simp add: uprev_chrome_def spy_def new_result_def uprevved_def)

theorem unchanged_primary_stops_witness:
  "uprev_chrome (spy (stub_uprev_lib [''chromeos-base/chromeos-chrome''] overlay_versions))
       [] [chrome_ref] ''/chroot''
     = Inr (\<lparr>modified = []\<rparr>,
            (\<lparr>target = ''85.0.4183.0'', stable = overlay_versions, written = []\<rparr>,
             [''chromeos-base/chromeos-chrome'']))
   \<and> \<not> uprevved \<lparr>modified = []\<rparr>"
  using unchanged_primary_stops [of "stub_uprev_lib [''chromeos-base/chromeos-chrome''] overlay_versions"
      "[chrome_ref]" "''85.0.4183.0''" "[]" "''/chroot''"
      "\<lparr>target = ''85.0.4183.0'', stable = overlay_versions, written = []\<rparr>"]
  by (simp add: stub_uprev_lib_def stub_uprev_def chrome_ref_def)

section \<open>Properties of \<^verbatim>\<open>uprev_ebuild_from_pin\<close>\<close>

text \<open>
  C8. When the scanner finds the one ebuild \<open>old\<close> of the package, the pin file holds the
  version in ASCII, and the new name \<^verbatim>\<open><package>-<version>-r1.ebuild\<close> is another entry of the
  directory the ebuild is in (a name the system accepts, not taken by a directory), the
  ebuild is renamed to it: in the checkout handed to the manifest generator the old path
  is gone and the new path has the old content. The manifest generator runs on the new
  ebuild, and the result has one record, with the version and the files new ebuild, old
  ebuild, manifest, in this order. The witness is the run on \<^verbatim>\<open>foo-1.2.3.ebuild\<close> with
  the pin \<^verbatim>\<open>1.2.4\<close>.
\<close>

theorem pinned_uprev_renames:
  assumes scan: "EBuild_List lib fs (os_path_join (SOURCE_ROOT lib) package_path) = [old]"
      and live: "map_of fs old = Some body"
      and pin: "ReadFile fs (os_path_join (SOURCE_ROOT lib) version_pin_path) = Inr pin"
      and ascii: "list_all (\<lambda>c. of_char c < (128::nat)) pin"
      and version: "version = strip pin"
      and rel: "new_rel = os_path_join package_path
                            (os_path_basename package_path @ ''-'' @ version @ ''-r1.ebuild'')"
      and new: "new = os_path_join (SOURCE_ROOT lib) new_rel"
      and same_dir: "os_path_dirname new = os_path_dirname old"
      and differ: "os_path_basename new \<noteq> os_path_basename old"
      and dir: "is_dir fs (os_path_dirname new)"
      and free: "\<not> is_dir fs new"
      and name: "valid_name (os_path_basename new)"
      and nul: "CHR 0x00 \<notin> set new"
      and short: "length new < 4096"
      and moved: "fs1 = AList.update new body (AList.delete old fs)"
      and manifest: "UpdateEbuildManifest lib (os_path_join (CHROOT_SOURCE_ROOT lib) new_rel)
                       chroot fs1 = Inr fs2"
      and mpath: "manifest_path =
                    os_path_join (os_path_join (SOURCE_ROOT lib) package_path) ''Manifest''"
  shows "uprev_ebuild_from_pin lib package_path version_pin_path chroot fs
           = (Inr \<lparr>modified = [\<lparr>new_version = version, files = [new, old, manifest_path]\<rparr>]\<rparr>,
              fs2)
         \<and> \<not> os_path_exists fs1 old \<and> map_of fs1 new = Some body"
proof -
  from differ have ne: "old \<noteq> new" by auto
  have "os_rename old new fs = Inr fs1"
    using live ne dir free name nul short moved by (simp add: os_rename_def)
  moreover have "\<not> os_path_exists fs1 old" "map_of fs1 new = Some body"
    using ne moved by (simp_all add: os_path_exists_def update_conv' delete_conv')
  ultimately show ?thesis
    using scan pin version rel new manifest mpath
    by (simp add: uprev_ebuild_from_pin_def Let_def add_result_def new_result_def)
qed

theorem pinned_uprev_renames_witness:
  "uprev_ebuild_from_pin (stub_chromite []) ''overlay/chromeos-base/foo''
       ''overlay/chromeos-base/foo/VERSION-PIN'' ''/chroot'' foo_checkout
     = (Inr \<lparr>modified =
               [\<lparr>new_version = ''1.2.4'',
                 files = [''/src/overlay/chromeos-base/foo/foo-1.2.4-r1.ebuild'',
                          ''/src/overlay/chromeos-base/foo/foo-1.2.3.ebuild'',
                          ''/src/overlay/chromeos-base/foo/Manifest'']\<rparr>]\<rparr>,
        foo_checkout_pinned)
   \<and> \<not> os_path_exists
         [(''/src/overlay/chromeos-base/foo/VERSION-PIN'', ''1.2.4'' @ [NL]),
          (''/src/overlay/chromeos-base/foo/foo-1.2.4-r1.ebuild'', ''EAPI=7'' @ [NL])]
         ''/src/overlay/chromeos-base/foo/foo-1.2.3.ebuild''
   \<and> map_of
         [(''/src/overlay/chromeos-base/foo/VERSION-PIN'', ''1.2.4'' @ [NL]),
          (''/src/overlay/chromeos-base/foo/foo-1.2.4-r1.ebuild'', ''EAPI=7'' @ [NL])]
         ''/src/overlay/chromeos-base/foo/foo-1.2.4-r1.ebuild'' = Some (''EAPI=7'' @ [NL])"
proof -
  have scan: "EBuild_List (stub_chromite []) foo_checkout
                (os_path_join (SOURCE_ROOT (stub_chromite [])) ''overlay/chromeos-base/foo'')
              = [''/src/overlay/chromeos-base/foo/foo-1.2.3.ebuild'']"
    by code_simp
  have live: "map_of foo_checkout ''/src/overlay/chromeos-base/foo/foo-1.2.3.ebuild''
              = Some (''EAPI=7'' @ [NL])"
    by code_simp
  have pin: "ReadFile foo_checkout
               (os_path_join (SOURCE_ROOT (stub_chromite []))
                  ''overlay/chromeos-base/foo/VERSION-PIN'')
             = Inr (''1.2.4'' @ [NL])"
    by code_simp
  have version: "''1.2.4'' = strip (''1.2.4'' @ [NL])"
    by code_simp
  have rel: "''overlay/chromeos-base/foo/foo-1.2.4-r1.ebuild''
             = os_path_join ''overlay/chromeos-base/foo''
                 (os_path_basename ''overlay/chromeos-base/foo'' @ ''-'' @ ''1.2.4''
                    @ ''-r1.ebuild'')"
    by code_simp
  have new: "''/src/overlay/chromeos-base/foo/foo-1.2.4-r1.ebuild''
             = os_path_join (SOURCE_ROOT (stub_chromite []))
                 ''overlay/chromeos-base/foo/foo-1.2.4-r1.ebuild''"
    by code_simp
  have ascii: "list_all (\<lambda>c. of_char c < (128::nat)) (''1.2.4'' @ [NL])"
    by code_simp
  have same_dir: "os_path_dirname ''/src/overlay/chromeos-base/foo/foo-1.2.4-r1.ebuild''
                  = os_path_dirname ''/src/overlay/chromeos-base/foo/foo-1.2.3.ebuild''"
    by code_simp
  have differ: "os_path_basename ''/src/overlay/chromeos-base/foo/foo-1.2.4-r1.ebuild''
                \<noteq> os_path_basename ''/src/overlay/chromeos-base/foo/foo-1.2.3.ebuild''"
    by code_simp
  have dir: "is_dir foo_checkout
               (os_path_dirname ''/src/overlay/chromeos-base/foo/foo-1.2.4-r1.ebuild'')"
    by code_simp
  have free: "\<not> is_dir foo_checkout ''/src/overlay/chromeos-base/foo/foo-1.2.4-r1.ebuild''"
    by code_simp
  have name: "valid_name
                (os_path_basename ''/src/overlay/chromeos-base/foo/foo-1.2.4-r1.ebuild'')"
    by code_simp
  have nul: "CHR 0x00 \<notin> set ''/src/overlay/chromeos-base/foo/foo-1.2.4-r1.ebuild''"
    by code_simp
  have short: "length ''/src/overlay/chromeos-base/foo/foo-1.2.4-r1.ebuild'' < 4096"
    by code_simp
  have moved: "[(''/src/overlay/chromeos-base/foo/VERSION-PIN'', ''1.2.4'' @ [NL]),
                (''/src/overlay/chromeos-base/foo/foo-1.2.4-r1.ebuild'', ''EAPI=7'' @ [NL])]
               = AList.update ''/src/overlay/chromeos-base/foo/foo-1.2.4-r1.ebuild''
                   (''EAPI=7'' @ [NL])
                   (AList.delete ''/src/overlay/chromeos-base/foo/foo-1.2.3.ebuild'' foo_checkout)"
    by code_simp
  have manifest: "UpdateEbuildManifest (stub_chromite [])
                    (os_path_join (CHROOT_SOURCE_ROOT (stub_chromite []))
                       ''overlay/chromeos-base/foo/foo-1.2.4-r1.ebuild'')
                    ''/chroot''
                    [(''/src/overlay/chromeos-base/foo/VERSION-PIN'', ''1.2.4'' @ [NL]),
                     (''/src/overlay/chromeos-base/foo/foo-1.2.4-r1.ebuild'', ''EAPI=7'' @ [NL])]
                  = Inr foo_checkout_pinned"
    by code_simp
  have mpath: "''/src/overlay/chromeos-base/foo/Manifest''
               = os_path_join
                   (os_path_join (SOURCE_ROOT (stub_chromite [])) ''overlay/chromeos-base/foo'')
                   ''Manifest''"
    by code_simp
  show ?thesis
    by (rule pinned_uprev_renames [OF scan live pin ascii version rel new same_dir differ dir free name nul
          short moved manifest mpath])
qed

text \<open>
  C3, as the code has it. When the one ebuild of the package already has the name built
  from the pin file, a further run renames it to its own name, which changes nothing and
  is not an error, runs the manifest generator again on the unchanged checkout, and
  reports an uprev: the result has one record, naming the ebuild twice and the manifest,
  and \<^verbatim>\<open>uprevved\<close> is true.
\<close>

theorem pinned_uprev_again:
  assumes scan: "EBuild_List lib fs (os_path_join (SOURCE_ROOT lib) package_path) = [cur]"
      and live: "map_of fs cur = Some body"
      and pin: "ReadFile fs (os_path_join (SOURCE_ROOT lib) version_pin_path) = Inr pin"
      and version: "version = strip pin"
      and rel: "new_rel = os_path_join package_path
                            (os_path_basename package_path @ ''-'' @ version @ ''-r1.ebuild'')"
      and same: "cur = os_path_join (SOURCE_ROOT lib) new_rel"
      and manifest: "UpdateEbuildManifest lib (os_path_join (CHROOT_SOURCE_ROOT lib) new_rel)
                       chroot fs = Inr fs2"
      and mpath: "manifest_path =
                    os_path_join (os_path_join (SOURCE_ROOT lib) package_path) ''Manifest''"
  shows "uprev_ebuild_from_pin lib package_path version_pin_path chroot fs
           = (Inr \<lparr>modified = [\<lparr>new_version = version, files = [cur, cur, manifest_path]\<rparr>]\<rparr>,
              fs2)
         \<and> uprevved \<lparr>modified = [\<lparr>new_version = version, files = [cur, cur, manifest_path]\<rparr>]\<rparr>"
proof -
  have "os_rename cur (os_path_join (SOURCE_ROOT lib) new_rel) fs = Inr fs"
    using live same by (simp add: os_rename_def)
  then show ?thesis
    using scan pin version rel same manifest mpath
    by (simp add: uprev_ebuild_from_pin_def Let_def add_result_def new_result_def uprevved_def)
qed

theorem pinned_uprev_again_witness:
  "uprev_ebuild_from_pin (stub_chromite []) ''overlay/chromeos-base/foo''
       ''overlay/chromeos-base/foo/VERSION-PIN'' ''/chroot'' foo_checkout_pinned
     = (Inr \<lparr>modified =
               [\<lparr>new_version = ''1.2.4'',
                 files = [''/src/overlay/chromeos-base/foo/foo-1.2.4-r1.ebuild'',
                          ''/src/overlay/chromeos-base/foo/foo-1.2.4-r1.ebuild'',
                          ''/src/overlay/chromeos-base/foo/Manifest'']\<rparr>]\<rparr>,
        foo_checkout_pinned)
   \<and> uprevved \<lparr>modified =
               [\<lparr>new_version = ''1.2.4'',
                 files = [''/src/overlay/chromeos-base/foo/foo-1.2.4-r1.ebuild'',
                          ''/src/overlay/chromeos-base/foo/foo-1.2.4-r1.ebuild'',
                          ''/src/overlay/chromeos-base/foo/Manifest'']\<rparr>]\<rparr>"
proof -
  have scan: "EBuild_List (stub_chromite []) foo_checkout_pinned
                (os_path_join (SOURCE_ROOT (stub_chromite [])) ''overlay/chromeos-base/foo'')
              = [''/src/overlay/chromeos-base/foo/foo-1.2.4-r1.ebuild'']"
    by code_simp
  have live: "map_of foo_checkout_pinned ''/src/overlay/chromeos-base/foo/foo-1.2.4-r1.ebuild''
              = Some (''EAPI=7'' @ [NL])"
    by code_simp
  have pin: "ReadFile foo_checkout_pinned
               (os_path_join (SOURCE_ROOT (stub_chromite []))
                  ''overlay/chromeos-base/foo/VERSION-PIN'')
             = Inr (''1.2.4'' @ [NL])"
    by code_simp
  have version: "''1.2.4'' = strip (''1.2.4'' @ [NL])"
    by code_simp
  have rel: "''overlay/chromeos-base/foo/foo-1.2.4-r1.ebuild''
             = os_path_join ''overlay/chromeos-base/foo''
                 (os_path_basename ''overlay/chromeos-base/foo'' @ ''-'' @ ''1.2.4''
                    @ ''-r1.ebuild'')"
    by code_simp
  have same: "''/src/overlay/chromeos-base/foo/foo-1.2.4-r1.ebuild''
              = os_path_join (SOURCE_ROOT (stub_chromite []))
                  ''overlay/chromeos-base/foo/foo-1.2.4-r1.ebuild''"
    by code_simp
  have manifest: "UpdateEbuildManifest (stub_chromite [])
                    (os_path_join (CHROOT_SOURCE_ROOT (stub_chromite []))
                       ''overlay/chromeos-base/foo/foo-1.2.4-r1.ebuild'')
                    ''/chroot'' foo_checkout_pinned
                  = Inr foo_checkout_pinned"
    by code_simp
  have mpath: "''/src/overlay/chromeos-base/foo/Manifest''
               = os_path_join
                   (os_path_join (SOURCE_ROOT (stub_chromite [])) ''overlay/chromeos-base/foo'')
                   ''Manifest''"
    by code_simp
  show ?thesis
    by (rule pinned_uprev_again [OF scan live pin version rel same manifest mpath])
qed


text \<open>
  C3, as claimed, fails: the second of two runs with the pin \<^verbatim>\<open>1.2.4\<close> does not report
  unchanged. It returns a result with a modification record, for which \<^verbatim>\<open>uprevved\<close> is
  true.
\<close>

theorem pinned_uprev_twice_counterexample:
  "uprev_ebuild_from_pin (stub_chromite []) ''overlay/chromeos-base/foo''
       ''overlay/chromeos-base/foo/VERSION-PIN'' ''/chroot'' foo_checkout
     = (Inr \<lparr>modified =
               [\<lparr>new_version = ''1.2.4'',
                 files = [''/src/overlay/chromeos-base/foo/foo-1.2.4-r1.ebuild'',
                          ''/src/overlay/chromeos-base/foo/foo-1.2.3.ebuild'',
                          ''/src/overlay/chromeos-base/foo/Manifest'']\<rparr>]\<rparr>,
        foo_checkout_pinned)
   \<and> uprev_ebuild_from_pin (stub_chromite []) ''overlay/chromeos-base/foo''
       ''overlay/chromeos-base/foo/VERSION-PIN'' ''/chroot'' foo_checkout_pinned
     = (Inr \<lparr>modified =
               [\<lparr>new_version = ''1.2.4'',
                 files = [''/src/overlay/chromeos-base/foo/foo-1.2.4-r1.ebuild'',
                          ''/src/overlay/chromeos-base/foo/foo-1.2.4-r1.ebuild'',
                          ''/src/overlay/chromeos-base/foo/Manifest'']\<rparr>]\<rparr>,
        foo_checkout_pinned)
   \<and> uprevved \<lparr>modified =
               [\<lparr>new_version = ''1.2.4'',
                 files = [''/src/overlay/chromeos-base/foo/foo-1.2.4-r1.ebuild'',
                          ''/src/overlay/chromeos-base/foo/foo-1.2.4-r1.ebuild'',
                          ''/src/overlay/chromeos-base/foo/Manifest'']\<rparr>]\<rparr>"
  by code_simp

section \<open>Properties of \<^verbatim>\<open>_generate_platform_c_files\<close>\<close>

lemma length_filter_full: "length (filter P xs) = length xs \<longleftrightarrow> filter (\<lambda>x. \<not> P x) xs = []"
  using sum_length_filter_compl [of P xs] by auto

lemma basename_join:
  assumes "CHR ''/'' \<notin> set f"
  shows "os_path_basename (os_path_join dir f) = f"
proof -
  have nostart: "\<not> startswith f ''/''"
    using assms by (cases f) (auto simp: startswith_def)
  have tw: "takeWhile (\<lambda>x. x \<noteq> CHR ''/'') (rev f @ ys) = rev f @ takeWhile (\<lambda>x. x \<noteq> CHR ''/'') ys" for ys
    by (rule takeWhile_append2) (use assms in auto)
  show ?thesis
  proof (cases "dir = [] \<or> endswith dir ''/''")
    case True
    then have j: "os_path_join dir f = dir @ f" using nostart by (simp add: os_path_join_def)
    from True have "takeWhile (\<lambda>x. x \<noteq> CHR ''/'') (rev dir) = []"
    proof
      assume "dir = []" then show ?thesis by simp
    next
      assume e: "endswith dir ''/''"
      then have "dir \<noteq> []" by (auto simp: endswith_def)
      then obtain ys y where d: "dir = ys @ [y]" by (metis rev_exhaust)
      with e have "y = CHR ''/''" by (simp add: endswith_def)
      with d show ?thesis by simp
    qed
    then show ?thesis by (simp add: j os_path_basename_def tw)
  next
    case False
    then have j: "os_path_join dir f = dir @ ''/'' @ f" using nostart by (simp add: os_path_join_def)
    show ?thesis by (simp add: j os_path_basename_def tw)
  qed
qed

lemma expected_no_slash: "f \<in> set expected_c_files \<Longrightarrow> CHR ''/'' \<notin> set f"
  by (auto simp: expected_c_files_def)

text \<open>
  C7, as the code has it. When the configuration has one \<^verbatim>\<open>build_config.json\<close>
  destination and the generator completes, leaving the checkout \<open>fs1\<close>: if an expected
  file is absent from the output directory the function raises
  \<^verbatim>\<open>GeneratedCrosConfigFilesError\<close> with the list of expected file names and the list of
  paths found, each under the output directory; otherwise it returns the paths of all
  three files. The absent files are the expected names minus the base names of the paths
  found. The witness is a generator that writes two of the three files.
\<close>

theorem generation_verified:
  assumes one: "filter (\<lambda>p. endswith p ''build_config.json'')
                  (map destination_path (file_replication_rules cfg)) = [p]"
      and dir: "dir = os_path_dirname p"
      and gen: "run lib [''cros_config_schema'', ''-m'', os_path_join (CHROOT_SOURCE_ROOT lib) p,
                         ''-g'', os_path_join (CHROOT_SOURCE_ROOT lib) dir,
                         ''-f'', [DQ] @ ''TRUE'' @ [DQ]] chroot fs = Inr fs1"
      and found: "found = map (os_path_join dir)
                            (filter (\<lambda>f. os_path_exists fs1
                                       (os_path_join (os_path_join (SOURCE_ROOT lib) dir) f))
                               expected_c_files)"
      and missing: "missing = missing_c_files lib fs1 dir"
  shows "generate_platform_c_files lib cfg chroot fs
           = (if missing = [] then Inr (map (os_path_join dir) expected_c_files)
              else Inl (GeneratedCrosConfigFilesError expected_c_files found), fs1)
         \<and> set missing = set expected_c_files - os_path_basename ` set found"
proof -
  let ?ex = "\<lambda>f. os_path_exists fs1 (os_path_join (os_path_join (SOURCE_ROOT lib) dir) f)"
  have len: "length (filter ?ex expected_c_files) = length expected_c_files \<longleftrightarrow> missing = []"
    using length_filter_full [of ?ex expected_c_files]
    by (simp add: missing missing_c_files_def)
  have all: "missing = [] \<Longrightarrow> filter ?ex expected_c_files = expected_c_files"
    by (simp add: missing missing_c_files_def filter_empty_conv filter_id_conv)
  have run: "generate_platform_c_files lib cfg chroot fs
           = (if missing = [] then Inr (map (os_path_join dir) expected_c_files)
              else Inl (GeneratedCrosConfigFilesError expected_c_files found), fs1)"
  proof (cases "missing = []")
    case True
    with one gen all len show ?thesis
      by (simp add: generate_platform_c_files_def Let_def dir [symmetric])
  next
    case False
    with len have "length expected_c_files \<noteq> length (filter ?ex expected_c_files)"
      by auto
    with False one gen show ?thesis
      by (simp add: generate_platform_c_files_def Let_def dir [symmetric] found)
  qed
  have base: "os_path_basename ` set found = {f \<in> set expected_c_files. ?ex f}"
  proof -
    have "os_path_basename ` set found
          = (\<lambda>f. os_path_basename (os_path_join dir f)) ` {f \<in> set expected_c_files. ?ex f}"
      by (simp add: found image_image)
    also have "\<dots> = (\<lambda>f. f) ` {f \<in> set expected_c_files. ?ex f}"
      by (rule image_cong) (auto simp: basename_join expected_no_slash)
    finally show ?thesis by simp
  qed
  have "set missing = set expected_c_files - os_path_basename ` set found"
    by (auto simp: base missing missing_c_files_def)
  with run show ?thesis by simp
qed

theorem generation_verified_witness:
  "generate_platform_c_files (stub_chromite [''config.c'', ''ec_config.c'']) bsp_config
       ''/chroot'' []
     = (Inl (GeneratedCrosConfigFilesError expected_c_files
               [''overlay/bsp/files/config.c'', ''overlay/bsp/files/ec_config.c'']),
        [(''/src/overlay/bsp/files/config.c'', ''/* generated */''),
         (''/src/overlay/bsp/files/ec_config.c'', ''/* generated */'')])
   \<and> set [''ec_config.h'']
       = set expected_c_files
           - os_path_basename ` set [''overlay/bsp/files/config.c'', ''overlay/bsp/files/ec_config.c'']"
proof -
  have one: "filter (\<lambda>p. endswith p ''build_config.json'')
               (map destination_path (file_replication_rules bsp_config))
             = [''overlay/bsp/files/build_config.json'']"
    by code_simp
  have dir: "''overlay/bsp/files'' = os_path_dirname ''overlay/bsp/files/build_config.json''"
    by code_simp
  have gen: "run (stub_chromite [''config.c'', ''ec_config.c''])
               [''cros_config_schema'', ''-m'',
                os_path_join (CHROOT_SOURCE_ROOT (stub_chromite [''config.c'', ''ec_config.c'']))
                  ''overlay/bsp/files/build_config.json'',
                ''-g'',
                os_path_join (CHROOT_SOURCE_ROOT (stub_chromite [''config.c'', ''ec_config.c'']))
                  ''overlay/bsp/files'',
                ''-f'', [DQ] @ ''TRUE'' @ [DQ]] ''/chroot'' []
             = Inr [(''/src/overlay/bsp/files/config.c'', ''/* generated */''),
                    (''/src/overlay/bsp/files/ec_config.c'', ''/* generated */'')]"
    by code_simp
  have found: "[''overlay/bsp/files/config.c'', ''overlay/bsp/files/ec_config.c'']
               = map (os_path_join ''overlay/bsp/files'')
                   (filter (\<lambda>f. os_path_exists
                                   [(''/src/overlay/bsp/files/config.c'', ''/* generated */''),
                                    (''/src/overlay/bsp/files/ec_config.c'', ''/* generated */'')]
                                   (os_path_join
                                      (os_path_join
                                         (SOURCE_ROOT (stub_chromite [''config.c'', ''ec_config.c'']))
                                         ''overlay/bsp/files'') f))
                      expected_c_files)"
    by code_simp
  have missing: "[''ec_config.h'']
                 = missing_c_files (stub_chromite [''config.c'', ''ec_config.c''])
                     [(''/src/overlay/bsp/files/config.c'', ''/* generated */''),
                      (''/src/overlay/bsp/files/ec_config.c'', ''/* generated */'')]
                     ''overlay/bsp/files''"
    by code_simp
  from generation_verified [OF one dir gen found missing] show ?thesis
    by simp
qed

text \<open>
  C7, as claimed, fails in the part on the difference: the error holds bare names on one
  side and paths under the output directory on the other, so the difference of the two
  sets is all three expected names, not the missing file.
\<close>

theorem generation_difference_counterexample:
  "fst (generate_platform_c_files (stub_chromite [''config.c'', ''ec_config.c'']) bsp_config
          ''/chroot'' [])
     = Inl (GeneratedCrosConfigFilesError
              [''config.c'', ''ec_config.c'', ''ec_config.h'']
              [''overlay/bsp/files/config.c'', ''overlay/bsp/files/ec_config.c''])
   \<and> set [''config.c'', ''ec_config.c'', ''ec_config.h'']
         - set [''overlay/bsp/files/config.c'', ''overlay/bsp/files/ec_config.c'']
       \<noteq> set [''ec_config.h'']"
  by code_simp

section \<open>Properties of \<^verbatim>\<open>_RunJson5ConfigChecks\<close>\<close>

text \<open>
  C9. The last test of the check compares the set of JSON5 names with the mojom path, a
  string, and is false for every set. So whenever one of the two files is affected and
  both are read, the check returns one warning, naming both files; when the two sets of
  names are the same, the warning says the files are out of sync and lists nothing. The
  witness is an input with the same names in both files.
\<close>

theorem json5_check_always_warns:
  assumes affected: "mojom_source_path \<in> set (AffectedFiles api)
                     \<or> json5_config_path \<in> set (AffectedFiles api)"
      and mojom: "ReadHistogramValues api mojom_source_path = Inr vals"
      and json5: "json5_load_data api json5_config_path = Inr data"
      and names: "feature_names data = Inr names"
  shows "\<not> py_eq (PySet (set names)) (PyStr mojom_source_path)
         \<and> (\<exists>w. RunJson5ConfigChecks api = Inr [w]
                \<and> items w = [mojom_source_path, json5_config_path]
                \<and> (set names = set vals - {''NotFound''} \<longrightarrow>
                     message w = json5_config_path @ '' and '' @ mojom_source_path
                                   @ '' are out of sync: ''))"
  using assms by (auto simp: RunJson5ConfigChecks_def Let_def)

theorem json5_check_always_warns_witness:
  "RunJson5ConfigChecks in_sync_api
     = Inr [\<lparr>message = json5_config_path @ '' and '' @ mojom_source_path @ '' are out of sync: '',
             items = [mojom_source_path, json5_config_path]\<rparr>]"
proof -
  have affected: "mojom_source_path \<in> set (AffectedFiles in_sync_api)
                  \<or> json5_config_path \<in> set (AffectedFiles in_sync_api)"
    by (simp add: in_sync_api_def)
  have mojom: "ReadHistogramValues in_sync_api mojom_source_path
               = Inr [''NotFound'', ''Camera'', ''Geolocation'']"
    by (simp add: in_sync_api_def)
  have json5: "json5_load_data in_sync_api json5_config_path
               = Inr [[''name'' \<mapsto> ''Camera''], [''name'' \<mapsto> ''Geolocation'']]"
    by (simp add: in_sync_api_def)
  have names: "feature_names [[''name'' \<mapsto> ''Camera''], [''name'' \<mapsto> ''Geolocation'']]
               = Inr [''Camera'', ''Geolocation'']"
    by simp
  have sync: "set [''Camera'', ''Geolocation'']
              = set [''NotFound'', ''Camera'', ''Geolocation''] - {''NotFound''}"
    by auto
  from json5_check_always_warns [OF affected mojom json5 names] sync
  obtain w where w: "RunJson5ConfigChecks in_sync_api = Inr [w]"
      "items w = [mojom_source_path, json5_config_path]"
      "message w = json5_config_path @ '' and '' @ mojom_source_path @ '' are out of sync: ''"
    by blast
  then show ?thesis by (cases w) simp
qed

end
